theory Spec2Isabelle
  imports Main "HOL-Library.Word"
begin

section \<open>Values\<close>

text \<open>
  The upload's content is a Python \<open>bytes\<close> object: a list of octets. The handler
  returns a Python \<open>dict\<close> whose values are \<open>None\<close>, a \<open>str\<close> or an \<open>int\<close>;
  the framework serialises it as a JSON object (null, string, number). Python dicts
  keep insertion order, so the object is an association list.
\<close>

type_synonym byte = "8 word"

datatype json = JNull | JStr string | JInt int

type_synonym json_object = "(string \<times> json) list"

text \<open>
  The framework's \<open>UploadFile\<close>, as the handler receives it: \<open>filename\<close> is declared
  \<open>str | None\<close>, \<open>content_type\<close> likewise, and the underlying file holds the bytes of
  the part. \<open>main.py\<close> reads \<open>file.filename\<close> and calls \<open>file.read()\<close> only.
\<close>

record upload_file =
  filename :: "string option"
  content_type :: "string option"
  file_bytes :: "byte list"

text \<open>\<open>await file.read()\<close> with no size argument: the whole content of the upload.\<close>

definition read :: "upload_file \<Rightarrow> byte list" where
  "read file = file_bytes file"

text \<open>A Python \<open>str | None\<close> as a JSON value.\<close>

fun json_of_str_option :: "string option \<Rightarrow> json" where
  "json_of_str_option None = JNull"
| "json_of_str_option (Some s) = JStr s"

section \<open>The handler (main.py, lines 15 to 20)\<close>

text \<open>
  \<^verbatim>\<open>
  async def slice_stl(file: UploadFile = File(...)):
      contents = await file.read()
      size = len(contents)
      return {"filename": file.filename, "size_bytes": size, "message": "Stub slice done."}
  \<close>
  The body names its parameter and its two locals only; it is a function of \<open>file\<close>.
\<close>

definition slice_stl :: "upload_file \<Rightarrow> json_object" where
  "slice_stl file =
     (let contents = read file;
          size' = length contents
      in [(''filename'', json_of_str_option (filename file)),
          (''size_bytes'', JInt (int size')),
          (''message'', JStr ''Stub slice done.'')])"

section \<open>The application object (main.py, lines 4 to 15)\<close>

text \<open>
  \<^verbatim>\<open>
  app = FastAPI()
  app.add_middleware(CORSMiddleware, allow_origins=["*"], allow_credentials=True,
                     allow_methods=["*"], allow_headers=["*"])
  @app.post("/slice")
  async def slice_stl(file: UploadFile = File(...)): ...
  \<close>
  The module builds one global object by three calls. The model keeps its middleware
  and its routes: those the constructor brings and those the program adds.
\<close>

record cors_config =
  allow_origins :: "string list"
  allow_credentials :: bool
  allow_methods :: "string list"
  allow_headers :: "string list"

datatype middleware = CORSMiddleware cors_config

text \<open>
  A parameter declared \<open>name: UploadFile = File(...)\<close>: a file part of the multipart
  form under that name, with the ellipsis as default, which marks it required.
\<close>

datatype param = File_required string

text \<open>
  What a route leads to: a path operation of the program (its declared parameter and
  its function), or one of the documentation pages the framework serves by itself,
  known by the name of the framework's function.
\<close>

datatype endpoint =
    PathOperation param "upload_file \<Rightarrow> json_object"
  | Documentation string

record route =
  route_methods :: "string list"
  route_path :: string
  route_endpoint :: endpoint

record application =
  user_middleware :: "middleware list"
  routes :: "route list"

text \<open>
  A route the framework adds with no method list: it answers GET, and HEAD with it.
\<close>

definition documentation_route :: "string \<Rightarrow> string \<Rightarrow> route" where
  "documentation_route path name =
     \<lparr>route_methods = [''GET'', ''HEAD''], route_path = path,
      route_endpoint = Documentation name\<rparr>"

text \<open>
  \<open>FastAPI()\<close> with no arguments, as \<open>main.py\<close> calls it. The constructor of the
  framework (not in this repository's sources) starts with no middleware and, with its
  default URLs, registers four documentation routes before any route of the program:
  the OpenAPI schema, the Swagger page, its OAuth2 redirect page and the ReDoc page.
\<close>

definition FastAPI :: application where
  "FastAPI =
     \<lparr>user_middleware = [],
      routes = [documentation_route ''/openapi.json'' ''openapi'',
                documentation_route ''/docs'' ''swagger_ui_html'',
                documentation_route ''/docs/oauth2-redirect'' ''swagger_ui_redirect'',
                documentation_route ''/redoc'' ''redoc_html'']\<rparr>"

text \<open>\<open>add_middleware\<close> puts the new middleware in front of those already added.\<close>

definition add_middleware :: "application \<Rightarrow> middleware \<Rightarrow> application" where
  "add_middleware a m = a\<lparr>user_middleware := m # user_middleware a\<rparr>"

text \<open>
  The decorator \<open>@a.post(path)\<close> applied to a function with one file parameter: a
  route for the method POST only, added after the routes already there.
\<close>

definition post :: "application \<Rightarrow> string \<Rightarrow> param \<Rightarrow> (upload_file \<Rightarrow> json_object) \<Rightarrow> application" where
  "post a path p f =
     a\<lparr>routes := routes a @
        [\<lparr>route_methods = [''POST''], route_path = path,
          route_endpoint = PathOperation p f\<rparr>]\<rparr>"

definition cors :: cors_config where
  "cors = \<lparr>allow_origins = [''*''], allow_credentials = True,
            allow_methods = [''*''], allow_headers = [''*'']\<rparr>"

definition app :: application where
  "app = post (add_middleware FastAPI (CORSMiddleware cors))
              ''/slice'' (File_required ''file'') slice_stl"

text \<open>
  The wildcard convention of the cross-origin lists: an entry \<open>"*"\<close> stands for every
  value, any other entry for itself.
\<close>

definition permits :: "string list \<Rightarrow> string \<Rightarrow> bool" where
  "permits allowed x = (''*'' \<in> set allowed \<or> x \<in> set allowed)"

section \<open>Requests and their dispatch\<close>

text \<open>
  A request as the routing and validation layers see it: method, path and the parts of
  its multipart form by field name. A part is a file (it carries a filename and bytes)
  or a plain text field.
\<close>

datatype form_value = FormFile upload_file | FormField string

record request =
  req_method :: string
  req_path :: string
  form :: "string \<rightharpoonup> form_value"

text \<open>
  One part of a multipart body once its headers are read: the filename of its
  Content-Disposition header if it has one, its content type if it has one, and its
  data.
\<close>

record part =
  part_filename :: "string option"
  part_content_type :: "string option"
  part_data :: "byte list"

text \<open>
  Modelled from the spec: the framework's multipart parser, which is not in this
  repository's sources. The spec calls an upload "a file transmitted as part of an
  HTTP multipart request body" and knows "a malformed or missing upload"; what makes a
  part a file is left to the framework. There a part is an upload exactly when its
  Content-Disposition carries a filename, and the upload then has that filename; a
  part without one is a text field whose value is the data read as text.
\<close>

definition parse_part :: "part \<Rightarrow> form_value" where
  "parse_part p =
     (case part_filename p of
        Some name \<Rightarrow>
          FormFile \<lparr>filename = Some name, content_type = part_content_type p,
                    file_bytes = part_data p\<rparr>
      | None \<Rightarrow> FormField (map (\<lambda>b. char_of (unat b)) (part_data p)))"

text \<open>
  What becomes of a request that reaches the router: no route matches it; its route
  matched but the declared parameter could not be filled from the form (the field is
  named); the endpoint was called and returned an object; or a documentation page was
  served.
\<close>

datatype outcome = NoRoute | ValidationError string | Returned json_object | Page string

datatype status_class = Success | ClientError

text \<open>
  The router of the framework (not in this repository's sources) compiles a path
  without parameters to the pattern \<open>^path$\<close> and matches the request's path against
  it. In Python's patterns \<open>$\<close> stands for the end of the string and also for the
  place before one final newline, so the path itself matches and the path followed by
  a newline does too.
\<close>

definition path_matches :: "string \<Rightarrow> string \<Rightarrow> bool" where
  "path_matches pattern p = (p = pattern \<or> p = pattern @ [CHR 0x0A])"

text \<open>
  A route answers the requests that have one of its methods and a path that matches
  its own; the first such route in the list is taken.
\<close>

definition find_route :: "application \<Rightarrow> string \<Rightarrow> string \<Rightarrow> route option" where
  "find_route a m p =
     find (\<lambda>r. m \<in> set (route_methods r) \<and> path_matches (route_path r) p) (routes a)"

text \<open>
  Modelled from the spec: the request-validation layer of the web framework, which is
  not in this repository's sources. The spec: "a missing file part fails with a
  client-error status produced by the underlying request-validation layer". A required
  file parameter is filled by the file part of the form under its name; a form without
  such a part does not fill it.
\<close>

fun solve_param :: "param \<Rightarrow> (string \<rightharpoonup> form_value) \<Rightarrow> upload_file option" where
  "solve_param (File_required name) fm =
     (case fm name of
        Some (FormFile f) \<Rightarrow> Some f
      | Some (FormField s) \<Rightarrow> None
      | None \<Rightarrow> None)"

fun param_name :: "param \<Rightarrow> string" where
  "param_name (File_required name) = name"

text \<open>
  Modelled from the spec: the status the framework (not in this repository's sources)
  gives each outcome. The spec: the response object is returned "with a success
  status"; a missing upload is "surfaced as a generic client error". A request for
  which nothing is declared is the client's error too; a documentation page is served
  with success.
\<close>

fun status_of :: "outcome \<Rightarrow> status_class" where
  "status_of NoRoute = ClientError"
| "status_of (ValidationError name) = ClientError"
| "status_of (Returned body) = Success"
| "status_of (Page name) = Success"

text \<open>
  Modelled from the spec: the framework's call of a route's endpoint (not in this
  repository's sources). The parameter of a path operation is validated against the
  form, and only then is the function called; a documentation page needs nothing of
  the form.
\<close>

fun call_endpoint :: "endpoint \<Rightarrow> (string \<rightharpoonup> form_value) \<Rightarrow> outcome" where
  "call_endpoint (PathOperation p f) fm =
     (case solve_param p fm of
        None \<Rightarrow> ValidationError (param_name p)
      | Some file \<Rightarrow> Returned (f file))"
| "call_endpoint (Documentation name) fm = Page name"

text \<open>
  Modelled from the spec: the router's handling of one request (not in this
  repository's sources): the route is looked up and its endpoint is called. The
  application object is passed through: it is the only object of the module that
  outlives a request, and nothing in \<open>main.py\<close> assigns to it or to any other global
  once the module is loaded, so it is returned as it came.
\<close>

definition handle_request :: "application \<Rightarrow> request \<Rightarrow> outcome \<times> application" where
  "handle_request a req =
     (case find_route a (req_method req) (req_path req) of
        None \<Rightarrow> (NoRoute, a)
      | Some r \<Rightarrow> (call_endpoint (route_endpoint r) (form req), a))"





section \<open>Properties of the handler\<close>

text \<open>
  C1: for every upload whose content has N bytes, N = 0 included, the \<open>size_bytes\<close>
  field of the response is the integer N, the length of the buffer that was read.
\<close>

theorem size_bytes_is_length:
  "map_of (slice_stl file) ''size_bytes'' = Some (JInt (int (length (file_bytes file))))
   \<and> map_of (slice_stl (file\<lparr>file_bytes := []\<rparr>)) ''size_bytes'' = Some (JInt 0)"
  by (simp add: slice_stl_def read_def)

text \<open>
  C2: when the upload carries a filename, the \<open>filename\<close> field of the response is that
  very string, character for character, whatever the name is and whatever bytes the
  file holds.
\<close>

theorem filename_is_echoed:
  assumes "filename file = Some name"
  shows "map_of (slice_stl file) ''filename'' = Some (JStr name)
         \<and> map_of (slice_stl (file\<lparr>file_bytes := bs\<rparr>)) ''filename'' = Some (JStr name)"
  using assms by (simp add: slice_stl_def)

theorem filename_is_echoed_witness:
  "map_of (slice_stl \<lparr>filename = Some '''', content_type = None, file_bytes = [1, 2]\<rparr>)
          ''filename'' = Some (JStr '''')
   \<and> map_of (slice_stl \<lparr>filename = Some ''../a b;.STL.stl'', content_type = None,
                         file_bytes = []\<rparr>) ''filename'' = Some (JStr ''../a b;.STL.stl'')"
proof -
  have e: "filename \<lparr>filename = Some '''', content_type = None, file_bytes = [1, 2 :: byte]\<rparr>
             = Some ''''"
    by simp
  have u: "filename \<lparr>filename = Some ''../a b;.STL.stl'', content_type = None,
                      file_bytes = ([] :: byte list)\<rparr> = Some ''../a b;.STL.stl''"
    by simp
  from filename_is_echoed [OF e] filename_is_echoed [OF u] show ?thesis
    by blast
qed

text \<open>
  C3: the \<open>message\<close> field of the response is the literal \<open>Stub slice done.\<close> for every
  upload.
\<close>

theorem message_is_constant:
  "map_of (slice_stl file) ''message'' = Some (JStr ''Stub slice done.'')"
  by (simp add: slice_stl_def)



text \<open>
  C10: two uploads with the same filename and the same bytes get the same response,
  whatever else differs between them; the response is a function of these two alone.
\<close>

theorem response_depends_on_name_and_bytes:
  assumes "filename f = filename g" and "file_bytes f = file_bytes g"
  shows "slice_stl f = slice_stl g"
  using assms by (simp add: slice_stl_def read_def)

theorem response_depends_on_name_and_bytes_witness:
  "slice_stl \<lparr>filename = Some ''a.stl'', content_type = Some ''model/stl'', file_bytes = [7, 8]\<rparr>
   = slice_stl \<lparr>filename = Some ''a.stl'', content_type = None, file_bytes = [7, 8]\<rparr>"
proof -
  have a: "filename \<lparr>filename = Some ''a.stl'', content_type = Some ''model/stl'',
                      file_bytes = [7, 8 :: byte]\<rparr>
           = filename \<lparr>filename = Some ''a.stl'', content_type = None, file_bytes = [7, 8 :: byte]\<rparr>"
    by simp
  have b: "file_bytes \<lparr>filename = Some ''a.stl'', content_type = Some ''model/stl'',
                        file_bytes = [7, 8 :: byte]\<rparr>
           = file_bytes \<lparr>filename = Some ''a.stl'', content_type = None,
                          file_bytes = [7, 8 :: byte]\<rparr>"
    by simp
  from response_depends_on_name_and_bytes [OF a b] show ?thesis .
qed

section \<open>Properties of the application\<close>



text \<open>
  C7: the application has one middleware, the cross-origin one, which stands in front
  of every route; it is configured with the wildcard for origins, methods and headers
  and with credentials allowed, so every origin, method and header is permitted.
\<close>

theorem cors_is_permissive:
  "user_middleware app =
     [CORSMiddleware \<lparr>allow_origins = [''*''], allow_credentials = True,
                      allow_methods = [''*''], allow_headers = [''*'']\<rparr>]
   \<and> allow_credentials cors
   \<and> permits (allow_origins cors) origin
   \<and> permits (allow_methods cors) method
   \<and> permits (allow_headers cors) header"
  by (simp add: app_def post_def add_middleware_def FastAPI_def cors_def permits_def)

text \<open>
  C5: a POST to \<open>/slice\<close> whose form holds no file part, under any field name, is
  rejected by the validation layer with a client error that names the field \<open>file\<close>;
  the endpoint is not called, so no response object of the handler is returned.
\<close>

theorem missing_file_part_rejected:
  assumes "\<forall>k f. fm k \<noteq> Some (FormFile f)"
  shows "handle_request app \<lparr>req_method = ''POST'', req_path = ''/slice'', form = fm\<rparr>
           = (ValidationError ''file'', app)
         \<and> status_of (ValidationError ''file'') = ClientError
         \<and> (\<forall>body. fst (handle_request app
                \<lparr>req_method = ''POST'', req_path = ''/slice'', form = fm\<rparr>) \<noteq> Returned body)"
proof -
  have r: "find_route app ''POST'' ''/slice''
             = Some \<lparr>route_methods = [''POST''], route_path = ''/slice'',
                     route_endpoint = PathOperation (File_required ''file'') slice_stl\<rparr>"
    by (simp add: find_route_def app_def post_def add_middleware_def FastAPI_def
        documentation_route_def path_matches_def)
  have "solve_param (File_required ''file'') fm = None"
    using assms by (cases "fm ''file''") (auto split: form_value.splits)
  with r show ?thesis
    by (simp add: handle_request_def)
qed

theorem missing_file_part_rejected_witness:
  "handle_request app \<lparr>req_method = ''POST'', req_path = ''/slice'', form = Map.empty\<rparr>
     = (ValidationError ''file'', app)
   \<and> handle_request app \<lparr>req_method = ''POST'', req_path = ''/slice'',
                          form = [''note'' \<mapsto> FormField ''no file here'']\<rparr>
     = (ValidationError ''file'', app)"
proof -
  have e: "\<forall>k f. (Map.empty :: string \<rightharpoonup> form_value) k \<noteq> Some (FormFile f)"
    by simp
  have t: "\<forall>k f. [''note'' \<mapsto> FormField ''no file here''] k \<noteq> Some (FormFile f)"
    by simp
  from missing_file_part_rejected [OF e] missing_file_part_rejected [OF t] show ?thesis
    by blast
qed

text \<open>
  C9, as stated: a file part without filename metadata is handled with success and
  null under \<open>filename\<close>. It fails: such a part is read as a text field, the required
  file parameter is not filled, and the request is rejected; no response object with a
  null filename is returned.
\<close>

theorem nameless_part_gets_no_null_filename:
  "\<not> (\<exists>body. fst (handle_request app
          \<lparr>req_method = ''POST'', req_path = ''/slice'',
           form = [''file'' \<mapsto> parse_part \<lparr>part_filename = None,
                     part_content_type = Some ''model/stl'',
                     part_data = [115, 111, 108, 105, 100]\<rparr>]\<rparr>) = Returned body
        \<and> map_of body ''filename'' = Some JNull)"
proof -
  have "find_route app ''POST'' ''/slice''
          = Some \<lparr>route_methods = [''POST''], route_path = ''/slice'',
                  route_endpoint = PathOperation (File_required ''file'') slice_stl\<rparr>"
    by (simp add: find_route_def app_def post_def add_middleware_def FastAPI_def
        documentation_route_def path_matches_def)
  then show ?thesis
    by (simp add: handle_request_def parse_part_def)
qed

text \<open>
  C9, amended: when the part under \<open>file\<close> carries no filename metadata, it is a text
  field and not an upload: a POST to \<open>/slice\<close> with it is rejected by the validation
  layer with a client error that names the field \<open>file\<close>, and the handler is not
  called.
\<close>

theorem nameless_part_rejected:
  assumes "part_filename p = None"
  shows "handle_request app
           \<lparr>req_method = ''POST'', req_path = ''/slice'', form = fm(''file'' \<mapsto> parse_part p)\<rparr>
           = (ValidationError ''file'', app)
         \<and> status_of (ValidationError ''file'') = ClientError"
proof -
  have "find_route app ''POST'' ''/slice''
          = Some \<lparr>route_methods = [''POST''], route_path = ''/slice'',
                  route_endpoint = PathOperation (File_required ''file'') slice_stl\<rparr>"
    by (simp add: find_route_def app_def post_def add_middleware_def FastAPI_def
        documentation_route_def path_matches_def)
  with assms show ?thesis
    by (simp add: handle_request_def parse_part_def)
qed

theorem nameless_part_rejected_witness:
  "handle_request app
     \<lparr>req_method = ''POST'', req_path = ''/slice'',
      form = [''file'' \<mapsto> parse_part \<lparr>part_filename = None, part_content_type = None,
                part_data = [0, 1]\<rparr>]\<rparr>
     = (ValidationError ''file'', app)"
proof -
  have n: "part_filename \<lparr>part_filename = None, part_content_type = None,
                           part_data = [0, 1 :: byte]\<rparr> = None"
    by simp
  from nameless_part_rejected [OF n, of Map.empty] show ?thesis
    by blast
qed

end
